theory Spec2Isabelle
  imports Complex_Main
begin

section \<open>Python and numpy values\<close>

text \<open>
  The adapter \<^verbatim>\<open>DSystem\<close> of \<^verbatim>\<open>dsystem.py\<close> is Python 2 over numpy. Floating-point
  numbers are modelled as reals: rounding, infinities and NaN are outside the model. Where
  numpy would divide by zero (a time step, a perturbation or a norm that is zero) the
  quotient here is HOL's, \<open>x / 0 = 0\<close>; the theorems on such a quotient assume that the time
  vector is strictly increasing, respectively that the perturbation is not zero.
  An exception is a value \<open>Inl e\<close> of the result type \<open>error + 'a\<close>; the state an
  exception leaves behind is not kept. The two methods that save and load a trajectory
  file are not modelled.
\<close>

datatype error =
    StandardError string
  | TypeError string
  | NameError string
  | ValueError string
  | IndexError string
  | AssertionError
  | IntegratorError string

definition bindE :: "error + 'a \<Rightarrow> ('a \<Rightarrow> error + 'b) \<Rightarrow> error + 'b" where
  "bindE m g = (case m of Inl e \<Rightarrow> Inl e | Inr x \<Rightarrow> g x)"

type_synonym vec = "real list"

text \<open>A slice \<^verbatim>\<open>slice(start, stop)\<close> with non-negative bounds.\<close>

type_synonym slice = "nat \<times> nat"

text \<open>
  A two-dimensional array carries its shape, so that an array with no rows still has a
  column count; a three-dimensional one likewise.
\<close>

datatype array2 = Array2 (nrows: nat) (ncols: nat) (rows: "real list list")

datatype array3 = Array3 (dim0: nat) (dim1: nat) (dim2: nat) (planes: "real list list list")

text \<open>
  The time vector is stored as \<^verbatim>\<open>np.array(t).squeeze()\<close>: a sequence of one element
  becomes a zero-dimensional array, which has no \<^verbatim>\<open>len\<close> and cannot be indexed.
\<close>

datatype ndarray = Arr0 real | Arr1 "real list"

definition squeeze :: "real list \<Rightarrow> ndarray" where
  "squeeze t = (case t of [x] \<Rightarrow> Arr0 x | _ \<Rightarrow> Arr1 t)"

fun ndim :: "ndarray \<Rightarrow> nat" where
  "ndim (Arr0 x) = 0"
| "ndim (Arr1 xs) = 1"

fun len :: "ndarray \<Rightarrow> error + nat" where
  "len (Arr0 x) = Inl (TypeError ''len() of unsized object'')"
| "len (Arr1 xs) = Inr (length xs)"

text \<open>Indexing with a Python integer: a negative index counts from the end.\<close>

fun getitem :: "ndarray \<Rightarrow> int \<Rightarrow> error + real" where
  "getitem (Arr0 x) i = Inl (IndexError ''0-d arrays can't be indexed'')"
| "getitem (Arr1 xs) i =
     (let n = int (length xs) in
      if - n \<le> i \<and> i < n then Inr (xs ! nat (if i < 0 then i + n else i))
      else Inl (IndexError ''index out of bounds''))"

definition zeros :: "nat \<Rightarrow> vec" where
  "zeros n = replicate n 0"

text \<open>Reading a slice never fails: the bounds are clipped to the length.\<close>

definition getslice :: "'a list \<Rightarrow> slice \<Rightarrow> 'a list" where
  "getslice xs s = drop (fst s) (take (snd s) xs)"

text \<open>
  \<^verbatim>\<open>X[s] = v\<close> on a one-dimensional array: the value must have the length of the slice,
  or length one (it is then broadcast); anything else is numpy's \<^verbatim>\<open>ValueError\<close>.
\<close>

definition setslice :: "vec \<Rightarrow> slice \<Rightarrow> vec \<Rightarrow> error + vec" where
  "setslice X s v =
     (let a = fst s; L = length (getslice X s) in
      if length v = L then Inr (take a X @ v @ drop (a + L) X)
      else if length v = 1 then Inr (take a X @ replicate L (hd v) @ drop (a + L) X)
      else Inl (ValueError ''could not broadcast input array''))"

text \<open>\<^verbatim>\<open>if v is not None: X[s] = v\<close>\<close>

definition assign_opt :: "vec \<Rightarrow> slice \<Rightarrow> vec option \<Rightarrow> error + vec" where
  "assign_opt X s v = (case v of None \<Rightarrow> Inr X | Some w \<Rightarrow> setslice X s w)"

section \<open>Two- and three-dimensional numpy operations\<close>

definition zeros2 :: "nat \<Rightarrow> nat \<Rightarrow> array2" where
  "zeros2 m n = Array2 m n (replicate m (replicate n 0))"

text \<open>\<^verbatim>\<open>np.zeros((m, n))\<close>, where \<open>m\<close> is a Python integer that may be negative.\<close>

definition zeros2_int :: "int \<Rightarrow> nat \<Rightarrow> error + array2" where
  "zeros2_int m n =
     (if m < 0 then Inl (ValueError ''negative dimensions are not allowed'')
      else Inr (zeros2 (nat m) n))"

definition ones :: "nat \<Rightarrow> vec" where
  "ones n = replicate n 1"

definition diag :: "vec \<Rightarrow> array2" where
  "diag v =
     (let n = length v
      in Array2 n n (map (\<lambda>i. map (\<lambda>j. if i = j then v ! i else 0) [0..<n]) [0..<n]))"

text \<open>The number of indices a slice selects in a dimension of size \<open>n\<close>.\<close>

definition slice_len :: "nat \<Rightarrow> slice \<Rightarrow> nat" where
  "slice_len n s = min (snd s) n - min (fst s) n"

text \<open>
  numpy's broadcasting of one dimension: a source of size \<open>k\<close> fits a target of size \<open>n\<close>
  when \<open>k = n\<close> or \<open>k = 1\<close>, and in the second case its one entry is repeated.
\<close>

definition broadcastable :: "nat \<Rightarrow> nat \<Rightarrow> bool" where
  "broadcastable k n = (k = n \<or> k = 1)"

definition broadcast :: "nat \<Rightarrow> 'a list \<Rightarrow> 'a list" where
  "broadcast n xs = (if length xs = n then xs else replicate n (hd xs))"

text \<open>\<^verbatim>\<open>A[rs, cs]\<close> and \<^verbatim>\<open>A[rs, cs] = B\<close> for two slices; \<^verbatim>\<open>A[:, cs]\<close> takes every row.\<close>

definition getblock :: "array2 \<Rightarrow> slice \<Rightarrow> slice \<Rightarrow> array2" where
  "getblock A rs cs =
     Array2 (slice_len (nrows A) rs) (slice_len (ncols A) cs)
       (map (\<lambda>r. getslice r cs) (getslice (rows A) rs))"

definition setblock :: "array2 \<Rightarrow> slice \<Rightarrow> slice \<Rightarrow> array2 \<Rightarrow> error + array2" where
  "setblock A rs cs B =
     (let m = slice_len (nrows A) rs; w = slice_len (ncols A) cs; a = fst rs; c = fst cs in
      if broadcastable (nrows B) m \<and> broadcastable (ncols B) w then
        Inr (Array2 (nrows A) (ncols A)
          (take a (rows A) @
           map2 (\<lambda>r b. take c r @ broadcast w b @ drop (c + w) r)
             (getslice (rows A) rs) (broadcast m (rows B)) @
           drop (a + m) (rows A)))
      else Inl (ValueError ''could not broadcast input array''))"

definition all_rows :: "array2 \<Rightarrow> slice" where
  "all_rows A = (0, nrows A)"


definition transpose2 :: "array2 \<Rightarrow> array2" where
  "transpose2 A =
     Array2 (ncols A) (nrows A) (map (\<lambda>j. map (\<lambda>r. r ! j) (rows A)) [0..<ncols A])"

text \<open>The size of a broadcast dimension of two operands.\<close>

definition bdim :: "nat \<Rightarrow> nat \<Rightarrow> nat option" where
  "bdim a b = (if a = b then Some a else if a = 1 then Some b else if b = 1 then Some a else None)"


definition elementwise2 :: "(real \<Rightarrow> real \<Rightarrow> real) \<Rightarrow> array2 \<Rightarrow> array2 \<Rightarrow> error + array2" where
  "elementwise2 h A B =
     (case (bdim (nrows A) (nrows B), bdim (ncols A) (ncols B)) of
        (Some m, Some n) \<Rightarrow>
          Inr (Array2 m n
            (map2 (\<lambda>ra rb. map2 h (broadcast n ra) (broadcast n rb))
               (broadcast m (rows A)) (broadcast m (rows B))))
      | _ \<Rightarrow> Inl (ValueError ''operands could not be broadcast together''))"

text \<open>
  \<^verbatim>\<open>np.inner(z, T)\<close> for a one-dimensional \<open>z\<close> and a three-dimensional \<open>T\<close>: the sum over
  the last axis of both, which must have the same size.
\<close>

definition dot :: "vec \<Rightarrow> vec \<Rightarrow> real" where
  "dot a b = sum_list (map2 (*) a b)"

definition inner :: "vec \<Rightarrow> array3 \<Rightarrow> error + array2" where
  "inner z T =
     (if length z = dim2 T then Inr (Array2 (dim0 T) (dim1 T) (map (map (dot z)) (planes T)))
      else Inl (ValueError ''shapes not aligned''))"



text \<open>\<^verbatim>\<open>"%d" % i\<close>\<close>

fun str_nat :: "nat \<Rightarrow> string" where
  "str_nat n =
     (if n < 10 then [''0123456789'' ! n]
      else str_nat (n div 10) @ [''0123456789'' ! (n mod 10)])"

declare str_nat.simps [simp del]

definition str_int :: "int \<Rightarrow> string" where
  "str_int i = (if i < 0 then ''-'' @ str_nat (nat (- i)) else str_nat (nat i))"

section \<open>The integrator the adapter wraps\<close>

text \<open>
  The mechanical system and the variational integrator are not part of \<^verbatim>\<open>dsystem.py\<close>.
  The adapter reads the four sequences below of the system (only their lengths), and the
  attributes and derivative accessors below of the integrator; the accessors are methods
  without arguments and are modelled as fields of the integrator's state.
\<close>

record msystem =
  configs :: "string list"
  dyn_configs :: "string list"
  kin_configs :: "string list"
  inputs :: "string list"

text \<open>
  Modelled from the spec: the integrator is a state machine with two states. Initialized, it
  holds \<open>(t1, q1, p1)\<close>; Stepped, it holds \<open>(t2, q2, p2)\<close> and the derivative data as well.
\<close>

datatype phase = Initialized | Stepped

record varint_state =
  system :: msystem
  phase :: phase
  t1 :: real
  q1 :: vec
  p1 :: vec
  t2 :: real
  q2 :: vec
  p2 :: vec
  q2_dq1 :: array2
  q2_dp1 :: array2
  q2_du1 :: array2
  q2_dk2 :: array2
  p2_dq1 :: array2
  p2_dp1 :: array2
  p2_du1 :: array2
  p2_dk2 :: array2
  q2_dq1dq1 :: array3
  q2_dq1dp1 :: array3
  q2_dq1du1 :: array3
  q2_dq1dk2 :: array3
  q2_dp1dp1 :: array3
  q2_dp1du1 :: array3
  q2_dp1dk2 :: array3
  q2_du1du1 :: array3
  q2_du1dk2 :: array3
  q2_dk2dk2 :: array3
  p2_dq1dq1 :: array3
  p2_dq1dp1 :: array3
  p2_dq1du1 :: array3
  p2_dq1dk2 :: array3
  p2_dp1dp1 :: array3
  p2_dp1du1 :: array3
  p2_dp1dk2 :: array3
  p2_du1du1 :: array3
  p2_du1dk2 :: array3
  p2_dk2dk2 :: array3

text \<open>
  The two methods of the integrator that the adapter calls are parameters of the model:
  \<^verbatim>\<open>initialize_from_state(t1, q1, p1, lambda1)\<close> and \<^verbatim>\<open>step(t2, u1, k2)\<close>, each a function
  of the integrator's state that returns the new state or raises.
\<close>

record integrator =
  initialize_from_state ::
    "varint_state \<Rightarrow> real \<Rightarrow> vec \<Rightarrow> vec \<Rightarrow> vec option \<Rightarrow> error + varint_state"
  varint_step :: "varint_state \<Rightarrow> real \<Rightarrow> vec \<Rightarrow> vec \<Rightarrow> error + varint_state"

section \<open>The adapter\<close>

text \<open>
  The attributes of a \<^verbatim>\<open>DSystem\<close>, without their leading underscore (\<open>cur_xk\<close>, \<open>cur_uk\<close>
  and \<open>cur_k\<close> are \<^verbatim>\<open>_xk\<close>, \<^verbatim>\<open>_uk\<close> and \<^verbatim>\<open>_k\<close>). The attributes \<^verbatim>\<open>_nX\<close>, \<^verbatim>\<open>_nU\<close> and the
  five slices are computed once by \<^verbatim>\<open>__init__\<close> from the five counts and never assigned
  again; they are definitions over the counts.
\<close>

record dsystem =
  varint :: varint_state
  cur_xk :: "vec option"
  cur_uk :: "vec option"
  time :: ndarray
  cur_k :: int
  nQ :: nat
  np :: nat
  nv :: nat
  nu :: nat
  nrho :: nat

definition DSystem :: "varint_state \<Rightarrow> real list \<Rightarrow> dsystem" where
  "DSystem vi t =
     \<lparr> varint = vi, cur_xk = None, cur_uk = None, time = squeeze t, cur_k = 0,
       nQ = length (configs (system vi)),
       np = length (dyn_configs (system vi)),
       nv = length (kin_configs (system vi)),
       nu = length (inputs (system vi)),
       nrho = length (kin_configs (system vi)) \<rparr>"

definition nX :: "dsystem \<Rightarrow> nat" where
  "nX d = nQ d + np d + nv d"

definition nU :: "dsystem \<Rightarrow> nat" where
  "nU d = nu d + nrho d"

definition slice_Q :: "dsystem \<Rightarrow> slice" where
  "slice_Q d = (0, nQ d)"

definition slice_p :: "dsystem \<Rightarrow> slice" where
  "slice_p d = (nQ d, nQ d + np d)"

definition slice_v :: "dsystem \<Rightarrow> slice" where
  "slice_v d = (nQ d + np d, nX d)"

definition slice_u :: "dsystem \<Rightarrow> slice" where
  "slice_u d = (0, nu d)"

definition slice_rho :: "dsystem \<Rightarrow> slice" where
  "slice_rho d = (nu d, nU d)"

text \<open>The setter of the property \<^verbatim>\<open>time\<close>.\<close>

definition set_time :: "dsystem \<Rightarrow> real list \<Rightarrow> error + dsystem" where
  "set_time d t =
     (if ndim (squeeze t) = 1 then Inr (d\<lparr>time := squeeze t\<rparr>) else Inl AssertionError)"

definition kf :: "dsystem \<Rightarrow> error + int" where
  "kf d = bindE (len (time d)) (\<lambda>n. Inr (int n - 1))"

definition build_state :: "dsystem \<Rightarrow> vec option \<Rightarrow> vec option \<Rightarrow> vec option \<Rightarrow> error + vec" where
  "build_state d Q p v =
     bindE (assign_opt (zeros (nX d)) (slice_Q d) Q) (\<lambda>X.
     bindE (assign_opt X (slice_p d) p) (\<lambda>X.
     assign_opt X (slice_v d) v))"

definition build_input :: "dsystem \<Rightarrow> vec option \<Rightarrow> vec option \<Rightarrow> error + vec" where
  "build_input d u rho =
     bindE (assign_opt (zeros (nU d)) (slice_u d) u) (\<lambda>U.
     assign_opt U (slice_rho d) rho)"

text \<open>
  \<^verbatim>\<open>split_state\<close>: with \<^verbatim>\<open>X is None\<close> the body evaluates \<^verbatim>\<open>nd.zeros(self.nX)\<close>, and the
  module binds no name \<^verbatim>\<open>nd\<close> (it imports \<^verbatim>\<open>trep\<close> and \<^verbatim>\<open>numpy as np\<close>).
\<close>

definition split_state :: "dsystem \<Rightarrow> vec option \<Rightarrow> error + vec \<times> vec \<times> vec" where
  "split_state d X =
     (case X of
        None \<Rightarrow> Inl (NameError ''nd'')
      | Some X \<Rightarrow> Inr (getslice X (slice_Q d), getslice X (slice_p d), getslice X (slice_v d)))"

definition split_input :: "dsystem \<Rightarrow> vec option \<Rightarrow> vec \<times> vec" where
  "split_input d U =
     (let U = (case U of None \<Rightarrow> zeros (nU d) | Some U \<Rightarrow> U)
      in (getslice U (slice_u d), getslice U (slice_rho d)))"

subsection \<open>Trajectories\<close>

text \<open>
  The function nested in \<^verbatim>\<open>build_trajectory\<close>,
  \<^verbatim>\<open>def bad_arguments(self, reason)\<close>, raises \<^verbatim>\<open>StandardError\<close> with the reason followed by a
  listing of the arguments (the listing is left out here). It has two parameters.
\<close>

definition bad_arguments :: "'s \<Rightarrow> string \<Rightarrow> error + 'a" where
  "bad_arguments self reason = Inl (StandardError reason)"

text \<open>
  Every call of it in \<^verbatim>\<open>build_trajectory\<close> is \<^verbatim>\<open>bad_arguments(reason)\<close>, with one argument:
  the reason is evaluated, and the call itself raises Python's \<^verbatim>\<open>TypeError\<close> before the
  body runs.
\<close>

definition call_bad_arguments :: "string \<Rightarrow> error + 'a" where
  "call_bad_arguments reason =
     Inl (TypeError ''bad_arguments() takes exactly 2 arguments (1 given)'')"

text \<open>
  \<^verbatim>\<open>if A is not None and len(A) != len(self._time) + off: bad_arguments(...)\<close>, where \<open>off\<close>
  is \<open>0\<close> for the state components and \<open>-1\<close> for the input components.
\<close>

definition check_length :: "string \<Rightarrow> array2 option \<Rightarrow> ndarray \<Rightarrow> int \<Rightarrow> error + unit" where
  "check_length name A t off =
     (case A of
        None \<Rightarrow> Inr ()
      | Some a \<Rightarrow>
          bindE (len t) (\<lambda>n.
            if int (nrows a) \<noteq> int n + off then
              call_bad_arguments
                (''Invalid length for '' @ name @ '' (expected '' @ str_int (int n + off) @ '')'')
            else Inr ()))"

text \<open>\<^verbatim>\<open>if B is not None: A[:, cs] = B\<close>\<close>

definition assign_cols :: "array2 \<Rightarrow> slice \<Rightarrow> array2 option \<Rightarrow> error + array2" where
  "assign_cols A cs B = (case B of None \<Rightarrow> Inr A | Some b \<Rightarrow> setblock A (all_rows A) cs b)"

definition build_trajectory ::
  "dsystem \<Rightarrow> array2 option \<Rightarrow> array2 option \<Rightarrow> array2 option \<Rightarrow> array2 option \<Rightarrow> array2 option
     \<Rightarrow> error + array2 \<times> array2" where
  "build_trajectory d Q p v u rho =
     bindE (check_length ''Q'' Q (time d) 0) (\<lambda>_.
     bindE (check_length ''p'' p (time d) 0) (\<lambda>_.
     bindE (check_length ''v'' v (time d) 0) (\<lambda>_.
     bindE (check_length ''u'' u (time d) (- 1)) (\<lambda>_.
     bindE (check_length ''rho'' rho (time d) (- 1)) (\<lambda>_.
     bindE (len (time d)) (\<lambda>n.
     bindE (zeros2_int (int n) (nX d)) (\<lambda>X.
     bindE (zeros2_int (int n - 1) (nU d)) (\<lambda>U.
     bindE (assign_cols X (slice_Q d) Q) (\<lambda>X.
     bindE (assign_cols X (slice_p d) p) (\<lambda>X.
     bindE (assign_cols X (slice_v d) v) (\<lambda>X.
     bindE (assign_cols U (slice_u d) u) (\<lambda>U.
     bindE (assign_cols U (slice_rho d) rho) (\<lambda>U.
     Inr (X, U))))))))))))))"

definition split_trajectory ::
  "dsystem \<Rightarrow> array2 option \<Rightarrow> array2 option
     \<Rightarrow> error + array2 \<times> array2 \<times> array2 \<times> array2 \<times> array2" where
  "split_trajectory d X U =
     bindE
       (case (X, U) of
          (None, None) \<Rightarrow>
            bindE (len (time d)) (\<lambda>n.
            bindE (zeros2_int (int n) (nX d)) (\<lambda>X'.
            bindE (zeros2_int (int n - 1) (nU d)) (\<lambda>U'.
            Inr (X', U'))))
        | (None, Some U') \<Rightarrow> Inr (zeros2 (nrows U' + 1) (nX d), U')
        | (Some X', None) \<Rightarrow> Inr (X', zeros2 (nrows X' + 1) (nU d))
        | (Some X', Some U') \<Rightarrow> Inr (X', U'))
       (\<lambda>(X', U').
          Inr (getblock X' (all_rows X') (slice_Q d),
               getblock X' (all_rows X') (slice_p d),
               getblock X' (all_rows X') (slice_v d),
               getblock U' (all_rows U') (slice_u d),
               getblock U' (all_rows U') (slice_rho d)))"

subsection \<open>Positioning the adapter\<close>

text \<open>
  \<^verbatim>\<open>set\<close> (here \<open>set_d\<close>) and \<^verbatim>\<open>step\<close>: the integrator's two methods come from the
  parameter \<open>M\<close>. The index \<^verbatim>\<open>_k\<close> is assigned before anything is read.
\<close>

definition set_d ::
  "integrator \<Rightarrow> dsystem \<Rightarrow> vec \<Rightarrow> vec \<Rightarrow> int \<Rightarrow> vec option \<Rightarrow> error + dsystem" where
  "set_d M d xk uk k lambda_k =
     (let d = d\<lparr>cur_k := k\<rparr> in
      bindE (split_state d (Some xk)) (\<lambda>(Q1, P1, V1).
      case split_input d (Some uk) of (u1, rho2) \<Rightarrow>
      bindE (getitem (time d) (cur_k d + 0)) (\<lambda>ta.
      bindE (getitem (time d) (cur_k d + 1)) (\<lambda>tb.
      bindE (initialize_from_state M (varint d) ta Q1 P1 lambda_k) (\<lambda>vi.
      bindE (varint_step M vi tb u1 rho2) (\<lambda>vi.
      Inr (d\<lparr>varint := vi\<rparr>)))))))"

definition step :: "integrator \<Rightarrow> dsystem \<Rightarrow> vec \<Rightarrow> error + dsystem" where
  "step M d uk =
     (let d = d\<lparr>cur_k := cur_k d + 1\<rparr> in
      case split_input d (Some uk) of (u1, rho2) \<Rightarrow>
      bindE (getitem (time d) (cur_k d + 1)) (\<lambda>tb.
      bindE (varint_step M (varint d) tb u1 rho2) (\<lambda>vi.
      Inr (d\<lparr>varint := vi\<rparr>))))"

subsection \<open>The map and its derivatives\<close>

definition f :: "dsystem \<Rightarrow> error + vec" where
  "f d =
     (let vi = varint d;
          v2 = map2 (\<lambda>a b. (a - b) / (t2 vi - t1 vi)) (q2 vi) (q1 vi);
          v2 = drop (length (dyn_configs (system vi))) v2
      in build_state d (Some (q2 vi)) (Some (p2 vi)) (Some v2))"

text \<open>\<^verbatim>\<open>dt = self._time[self._k+1] - self._time[self._k+0]\<close>\<close>

definition time_step :: "dsystem \<Rightarrow> error + real" where
  "time_step d =
     bindE (getitem (time d) (cur_k d + 1)) (\<lambda>tb.
     bindE (getitem (time d) (cur_k d + 0)) (\<lambda>ta.
     Inr (tb - ta)))"

definition fdx :: "dsystem \<Rightarrow> error + array2" where
  "fdx d =
     bindE (time_step d) (\<lambda>dt.
     bindE (Inr (diag (map (\<lambda>x. x * (- 1) / dt) (ones (nX d))))) (\<lambda>A.
     bindE (setblock A (slice_Q d) (slice_Q d) (q2_dq1 (varint d))) (\<lambda>A.
     bindE (setblock A (slice_Q d) (slice_p d) (q2_dp1 (varint d))) (\<lambda>A.
     bindE (setblock A (slice_p d) (slice_Q d) (p2_dq1 (varint d))) (\<lambda>A.
     setblock A (slice_p d) (slice_p d) (p2_dp1 (varint d)))))))"


text \<open>\<^verbatim>\<open>np.inner(zQ, TQ) + np.inner(zp, Tp)\<close>\<close>

definition contract :: "vec \<Rightarrow> array3 \<Rightarrow> vec \<Rightarrow> array3 \<Rightarrow> error + array2" where
  "contract zQ TQ zp Tp =
     bindE (inner zQ TQ) (\<lambda>a.
     bindE (inner zp Tp) (\<lambda>b.
     elementwise2 (+) a b))"

definition fdxdx :: "dsystem \<Rightarrow> vec \<Rightarrow> error + array2" where
  "fdxdx d z =
     (let zQ = getslice z (slice_Q d); zp = getslice z (slice_p d); vi = varint d in
      bindE (Inr (zeros2 (nX d) (nX d))) (\<lambda>A.
      bindE (contract zQ (q2_dq1dq1 vi) zp (p2_dq1dq1 vi)) (\<lambda>B.
      bindE (setblock A (slice_Q d) (slice_Q d) B) (\<lambda>A.
      bindE (contract zQ (q2_dq1dp1 vi) zp (p2_dq1dp1 vi)) (\<lambda>B.
      bindE (setblock A (slice_Q d) (slice_p d) B) (\<lambda>A.
      bindE (setblock A (slice_p d) (slice_Q d)
               (transpose2 (getblock A (slice_Q d) (slice_p d)))) (\<lambda>A.
      bindE (contract zQ (q2_dp1dp1 vi) zp (p2_dp1dp1 vi)) (\<lambda>B.
      setblock A (slice_p d) (slice_p d) B))))))))"

definition fdxdu :: "dsystem \<Rightarrow> vec \<Rightarrow> error + array2" where
  "fdxdu d z =
     (let zQ = getslice z (slice_Q d); zp = getslice z (slice_p d); vi = varint d in
      bindE (Inr (zeros2 (nX d) (nU d))) (\<lambda>A.
      bindE (contract zQ (q2_dq1du1 vi) zp (p2_dq1du1 vi)) (\<lambda>B.
      bindE (setblock A (slice_Q d) (slice_u d) B) (\<lambda>A.
      bindE (contract zQ (q2_dq1dk2 vi) zp (p2_dq1dk2 vi)) (\<lambda>B.
      bindE (setblock A (slice_Q d) (slice_rho d) B) (\<lambda>A.
      bindE (contract zQ (q2_dp1du1 vi) zp (p2_dp1du1 vi)) (\<lambda>B.
      bindE (setblock A (slice_p d) (slice_u d) B) (\<lambda>A.
      bindE (contract zQ (q2_dp1dk2 vi) zp (p2_dp1dk2 vi)) (\<lambda>B.
      setblock A (slice_p d) (slice_rho d) B)))))))))"

definition fdudu :: "dsystem \<Rightarrow> vec \<Rightarrow> error + array2" where
  "fdudu d z =
     (let zQ = getslice z (slice_Q d); zp = getslice z (slice_p d); vi = varint d in
      bindE (Inr (zeros2 (nU d) (nU d))) (\<lambda>A.
      bindE (contract zQ (q2_du1du1 vi) zp (p2_du1du1 vi)) (\<lambda>B.
      bindE (setblock A (slice_u d) (slice_u d) B) (\<lambda>A.
      bindE (contract zQ (q2_du1dk2 vi) zp (p2_du1dk2 vi)) (\<lambda>B.
      bindE (setblock A (slice_u d) (slice_rho d) B) (\<lambda>A.
      bindE (setblock A (slice_rho d) (slice_u d)
               (transpose2 (getblock A (slice_u d) (slice_rho d)))) (\<lambda>A.
      bindE (contract zQ (q2_dk2dk2 vi) zp (p2_dk2dk2 vi)) (\<lambda>B.
      setblock A (slice_rho d) (slice_rho d) B))))))))"

subsection \<open>The finite-difference check\<close>






section \<open>A system of one kinematic configuration\<close>

text \<open>
  Modelled from the spec: the integrator is not in \<^verbatim>\<open>dsystem.py\<close>. For a system whose only
  configuration is kinematic there is nothing to solve. \<^verbatim>\<open>initialize_from_state\<close> sets the
  integrator to Initialized, holding \<open>(t1, q1, p1)\<close>. \<^verbatim>\<open>step(t2, u1, k2)\<close> starts from the
  state the integrator is at: from Initialized that is \<open>(t1, q1, p1)\<close>; from Stepped the
  previous step's state \<open>(t2, q2, p2)\<close> is consumed as the input of the next and becomes
  \<open>(t1, q1, p1)\<close>. The step fixes the kinematic configuration at \<open>t2\<close> to \<open>k2\<close> and leaves the
  integrator Stepped; there is no momentum. The configuration \<open>q2\<close> does not depend on \<open>q1\<close>
  and is the identity in \<open>k2\<close>; every second derivative is zero. \<open>kin_varint\<close> is the
  integrator initialised at time \<open>0\<close> with the configuration \<open>0\<close>.
\<close>

definition kin_system :: msystem where
  "kin_system = \<lparr> configs = [''rho''], dyn_configs = [], kin_configs = [''rho''], inputs = [] \<rparr>"

definition kin_varint :: varint_state where
  "kin_varint =
     \<lparr> system = kin_system, phase = Initialized,
       t1 = 0, q1 = [0], p1 = [], t2 = 0, q2 = [0], p2 = [],
       q2_dq1 = Array2 1 1 [[0]], q2_dp1 = Array2 1 0 [[]],
       q2_du1 = Array2 1 0 [[]], q2_dk2 = Array2 1 1 [[1]],
       p2_dq1 = Array2 0 1 [], p2_dp1 = Array2 0 0 [],
       p2_du1 = Array2 0 0 [], p2_dk2 = Array2 0 1 [],
       q2_dq1dq1 = Array3 1 1 1 [[[0]]], q2_dq1dp1 = Array3 1 0 1 [[]],
       q2_dq1du1 = Array3 1 0 1 [[]], q2_dq1dk2 = Array3 1 1 1 [[[0]]],
       q2_dp1dp1 = Array3 0 0 1 [], q2_dp1du1 = Array3 0 0 1 [],
       q2_dp1dk2 = Array3 0 1 1 [], q2_du1du1 = Array3 0 0 1 [],
       q2_du1dk2 = Array3 0 1 1 [], q2_dk2dk2 = Array3 1 1 1 [[[0]]],
       p2_dq1dq1 = Array3 1 1 0 [[[]]], p2_dq1dp1 = Array3 1 0 0 [[]],
       p2_dq1du1 = Array3 1 0 0 [[]], p2_dq1dk2 = Array3 1 1 0 [[[]]],
       p2_dp1dp1 = Array3 0 0 0 [], p2_dp1du1 = Array3 0 0 0 [],
       p2_dp1dk2 = Array3 0 1 0 [], p2_du1du1 = Array3 0 0 0 [],
       p2_du1dk2 = Array3 0 1 0 [], p2_dk2dk2 = Array3 1 1 0 [[[]]] \<rparr>"

definition kin_integrator :: integrator where
  "kin_integrator =
     \<lparr> initialize_from_state =
         (\<lambda>vi t q p lam. Inr (vi\<lparr>phase := Initialized, t1 := t, q1 := q, p1 := p\<rparr>)),
       varint_step =
         (\<lambda>vi t u k2.
            Inr ((if phase vi = Stepped then vi\<lparr>t1 := t2 vi, q1 := q2 vi, p1 := p2 vi\<rparr> else vi)
                   \<lparr>phase := Stepped, t2 := t, q2 := k2, p2 := []\<rparr>)) \<rparr>"

text \<open>The adapter of this system over the time vector \<open>[0, 1]\<close>.\<close>

definition kin_dsystem :: dsystem where
  "kin_dsystem = DSystem kin_varint [0, 1]"

text \<open>The adapter of the same system over the time vector \<open>[0, 1, 2]\<close>.\<close>

definition kin_dsystem3 :: dsystem where
  "kin_dsystem3 = DSystem kin_varint [0, 1, 2]"

section \<open>A system of one dynamic and one kinematic configuration\<close>

text \<open>
  A pendulum on a cart whose position is prescribed: the angle is dynamic, the position is
  kinematic, and a torque is the one force input. \<open>cart_varint\<close> is a sample state of its
  integrator after a step from \<open>t1 = 0\<close> to \<open>t2 = 2\<close>; the numbers are sample data.
\<close>

definition cart_system :: msystem where
  "cart_system =
     \<lparr> configs = [''theta'', ''x''], dyn_configs = [''theta''], kin_configs = [''x''],
       inputs = [''torque''] \<rparr>"

definition cart_varint :: varint_state where
  "cart_varint =
     \<lparr> system = cart_system, phase = Stepped,
       t1 = 0, q1 = [1 / 2, 1], p1 = [0], t2 = 2, q2 = [3 / 4, 3], p2 = [1 / 4],
       q2_dq1 = Array2 2 2 [[1, 1 / 2], [0, 0]], q2_dp1 = Array2 2 1 [[2], [0]],
       q2_du1 = Array2 2 1 [[4], [0]], q2_dk2 = Array2 2 1 [[- 1 / 2], [1]],
       p2_dq1 = Array2 1 2 [[- 1, 3]], p2_dp1 = Array2 1 1 [[1]],
       p2_du1 = Array2 1 1 [[2]], p2_dk2 = Array2 1 1 [[5]],
       q2_dq1dq1 = Array3 2 2 2 [[[1, 0], [2, 0]], [[2, 0], [3, 0]]],
       q2_dq1dp1 = Array3 2 1 2 [[[1, 0]], [[4, 0]]],
       q2_dq1du1 = Array3 2 1 2 [[[2, 0]], [[1, 0]]],
       q2_dq1dk2 = Array3 2 1 2 [[[3, 0]], [[1, 0]]],
       q2_dp1dp1 = Array3 1 1 2 [[[5, 0]]], q2_dp1du1 = Array3 1 1 2 [[[6, 0]]],
       q2_dp1dk2 = Array3 1 1 2 [[[7, 0]]], q2_du1du1 = Array3 1 1 2 [[[8, 0]]],
       q2_du1dk2 = Array3 1 1 2 [[[9, 0]]], q2_dk2dk2 = Array3 1 1 2 [[[1, 0]]],
       p2_dq1dq1 = Array3 2 2 1 [[[1], [2]], [[2], [1]]],
       p2_dq1dp1 = Array3 2 1 1 [[[3]], [[1]]],
       p2_dq1du1 = Array3 2 1 1 [[[1]], [[2]]],
       p2_dq1dk2 = Array3 2 1 1 [[[2]], [[2]]],
       p2_dp1dp1 = Array3 1 1 1 [[[4]]], p2_dp1du1 = Array3 1 1 1 [[[1]]],
       p2_dp1dk2 = Array3 1 1 1 [[[3]]], p2_du1du1 = Array3 1 1 1 [[[2]]],
       p2_du1dk2 = Array3 1 1 1 [[[1]]], p2_dk2dk2 = Array3 1 1 1 [[[6]]] \<rparr>"

text \<open>The adapter of this system over the time vector \<open>[0, 2, 3]\<close>.\<close>

definition cart_dsystem :: dsystem where
  "cart_dsystem = DSystem cart_varint [0, 2, 3]"

section \<open>Vocabulary for the statements about a trajectory\<close>

text \<open>\<^verbatim>\<open>step(u)\<close> called for each input of a list in turn.\<close>

fun steps :: "integrator \<Rightarrow> dsystem \<Rightarrow> vec list \<Rightarrow> error + dsystem" where
  "steps M d [] = Inr d"
| "steps M d (u # us) = bindE (step M d u) (\<lambda>d'. steps M d' us)"

text \<open>
  Modelled from the spec: the integrator is not in \<^verbatim>\<open>dsystem.py\<close>, and this is what the spec
  says of its two transitions. \<^verbatim>\<open>initialize_from_state(t1, q1, p1)\<close> sets the integrator to
  Initialized, holding \<open>(t1, q1, p1)\<close>. \<^verbatim>\<open>step(t2, u1, k2)\<close> starts from the state the integrator
  is at (\<open>current\<close>: \<open>(t1, q1, p1)\<close> when Initialized; when Stepped the state \<open>(t2, q2, p2)\<close>
  of the previous step, which is consumed as the input of the next), holds that state as
  \<open>(t1, q1, p1)\<close>, and leaves the integrator Stepped at \<open>t2\<close>. The configuration holds the
  dynamic configurations first and then the kinematic ones, the momentum has one entry for
  each dynamic configuration, and the kinematic configurations at \<open>t2\<close> are fixed to \<open>k2\<close>.
  Neither transition changes the system.
\<close>

definition current :: "varint_state \<Rightarrow> real \<times> vec \<times> vec" where
  "current vi = (if phase vi = Stepped then (t2 vi, q2 vi, p2 vi) else (t1 vi, q1 vi, p1 vi))"

definition integrator_contract :: "integrator \<Rightarrow> msystem \<Rightarrow> bool" where
  "integrator_contract M sys =
     ((\<forall>vi t q p lam vi0.
         system vi = sys \<longrightarrow> initialize_from_state M vi t q p lam = Inr vi0 \<longrightarrow>
         system vi0 = sys \<and> phase vi0 = Initialized \<and> t1 vi0 = t \<and> q1 vi0 = q \<and> p1 vi0 = p) \<and>
      (\<forall>vi t u k2 vi'.
         system vi = sys \<longrightarrow> varint_step M vi t u k2 = Inr vi' \<longrightarrow>
         system vi' = sys \<and> phase vi' = Stepped \<and> (t1 vi', q1 vi', p1 vi') = current vi \<and>
         t2 vi' = t \<and>
         (length (q1 vi') = length (configs sys) \<and> length (p1 vi') = length (dyn_configs sys) \<and>
          length k2 = length (kin_configs sys) \<longrightarrow>
          length (q2 vi') = length (configs sys) \<and> length (p2 vi') = length (dyn_configs sys) \<and>
          drop (length (dyn_configs sys)) (q2 vi') = k2)))"

text \<open>
  The counts of the adapter are those of the system of its integrator, as \<^verbatim>\<open>__init__\<close> sets
  them, and the configurations of the system are its dynamic and its kinematic ones.
\<close>

definition consistent :: "dsystem \<Rightarrow> bool" where
  "consistent d =
     (nQ d = length (configs (system (varint d))) \<and>
      np d = length (dyn_configs (system (varint d))) \<and>
      nv d = length (kin_configs (system (varint d))) \<and>
      nrho d = length (kin_configs (system (varint d))) \<and>
      nu d = length (inputs (system (varint d))) \<and>
      nQ d = np d + nv d)"

text \<open>
  The kinematic configuration along a trajectory that starts at the index \<open>k\<close> with the state
  \<open>xk\<close> and is driven by the inputs \<open>U = [U[k], U[k+1], ...]\<close>. By the docstring of the class,
  \<open>X[k] = [Q[k]; p[k]; v[k]]\<close> and \<open>U[k] = [u[k]; rho[k+1]]\<close>: \<open>rho_at d xk U i\<close> is \<open>rho[k+i]\<close>,
  the kinematic part of the \<open>Q\<close> slice of \<open>xk\<close> for \<open>i = 0\<close> and the \<open>rho\<close> slice of \<open>U[k+i-1]\<close>
  after that.
\<close>

definition rho_at :: "dsystem \<Rightarrow> vec \<Rightarrow> vec list \<Rightarrow> nat \<Rightarrow> vec" where
  "rho_at d xk U i =
     (if i = 0 then drop (np d) (getslice xk (slice_Q d))
      else getslice (U ! (i - 1)) (slice_rho d))"

text \<open>
  The invariant of a trajectory: the adapter \<open>d'\<close> is the adapter \<open>d\<close> at the index \<open>j\<close> with
  its integrator Stepped from the time of \<open>j\<close> to the time of \<open>j + 1\<close>, the kinematic
  configuration being \<open>rp\<close> before the step and \<open>r\<close> after it.
\<close>

definition stepped_at :: "dsystem \<Rightarrow> real list \<Rightarrow> int \<Rightarrow> vec \<Rightarrow> vec \<Rightarrow> dsystem \<Rightarrow> bool" where
  "stepped_at d ts j rp r d' =
     (d' = d\<lparr>cur_k := j, varint := varint d'\<rparr> \<and> 0 \<le> j \<and> nat (j + 1) < length ts \<and>
      phase (varint d') = Stepped \<and> system (varint d') = system (varint d) \<and>
      t1 (varint d') = ts ! nat j \<and> t2 (varint d') = ts ! nat (j + 1) \<and>
      length (q1 (varint d')) = nQ d \<and> length (q2 (varint d')) = nQ d \<and>
      length (p2 (varint d')) = np d \<and>
      drop (np d) (q1 (varint d')) = rp \<and> drop (np d) (q2 (varint d')) = r)"

section \<open>Vocabulary for the statements about the finite-difference check\<close>









section \<open>Evaluation\<close>

lemma bindE_Inr [simp]: "bindE (Inr x) g = g x"
  by (simp add: bindE_def)

lemma bindE_Inl [simp]: "bindE (Inl e) g = Inl e"
  by (simp add: bindE_def)

lemma bindE_eq_Inr: "bindE m g = Inr y \<longleftrightarrow> (\<exists>x. m = Inr x \<and> g x = Inr y)"
  by (cases m) simp_all

lemmas array_defs =
  getslice_def slice_len_def slice_Q_def slice_p_def slice_v_def slice_u_def slice_rho_def
  nX_def nU_def zeros2_def setblock_def getblock_def transpose2_def broadcast_def
  broadcastable_def elementwise2_def bdim_def inner_def dot_def contract_def all_rows_def

section \<open>The layout of the two examples\<close>

lemma counts_kin:
  "nQ kin_dsystem = 1" "np kin_dsystem = 0" "nv kin_dsystem = 1" "nu kin_dsystem = 0"
  "nrho kin_dsystem = 1" "time kin_dsystem = Arr1 [0, 1]" "cur_k kin_dsystem = 0"
  "varint kin_dsystem = kin_varint"
  by (simp_all add: kin_dsystem_def DSystem_def kin_varint_def kin_system_def squeeze_def)

lemma counts_kin3:
  "nQ kin_dsystem3 = 1" "np kin_dsystem3 = 0" "nv kin_dsystem3 = 1" "nu kin_dsystem3 = 0"
  "nrho kin_dsystem3 = 1" "time kin_dsystem3 = Arr1 [0, 1, 2]" "cur_k kin_dsystem3 = 0"
  "varint kin_dsystem3 = kin_varint"
  by (simp_all add: kin_dsystem3_def DSystem_def kin_varint_def kin_system_def squeeze_def)

lemma consistent_kin3: "consistent kin_dsystem3"
  by (simp add: consistent_def counts_kin3 kin_varint_def kin_system_def)

lemma counts_cart:
  "nQ cart_dsystem = 2" "np cart_dsystem = 1" "nv cart_dsystem = 1" "nu cart_dsystem = 1"
  "nrho cart_dsystem = 1" "time cart_dsystem = Arr1 [0, 2, 3]" "cur_k cart_dsystem = 0"
  "varint cart_dsystem = cart_varint"
  by (simp_all add: cart_dsystem_def DSystem_def cart_varint_def cart_system_def squeeze_def)

section \<open>Building and splitting a state\<close>

lemma build_state_Some:
  assumes "length Q = nQ d" and "length p = np d" and "length v = nv d"
  shows "build_state d (Some Q) (Some p) (Some v) = Inr (Q @ p @ v)"
  using assms
  by (simp add: build_state_def assign_opt_def setslice_def getslice_def zeros_def nX_def
      slice_Q_def slice_p_def slice_v_def bindE_def)

lemma split_state_append:
  assumes "length Q = nQ d" and "length p = np d" and "length v = nv d"
  shows "split_state d (Some (Q @ p @ v)) = Inr (Q, p, v)"
  using assms
  by (simp add: split_state_def getslice_def nX_def slice_Q_def slice_p_def slice_v_def)

text \<open>
  C5. For component vectors of the declared lengths (\<open>Q\<close> of length \<open>nQ\<close>, \<open>p\<close> of the number
  of dynamic configurations, \<open>v\<close> of the number of kinematic ones), \<^verbatim>\<open>build_state(Q, p, v)\<close>
  returns a state vector, and \<^verbatim>\<open>split_state\<close> of that vector returns exactly \<open>(Q, p, v)\<close>.
\<close>

theorem split_build_state_roundtrip:
  assumes "length Q = nQ d" and "length p = np d" and "length v = nv d"
  shows "bindE (build_state d (Some Q) (Some p) (Some v)) (\<lambda>X. split_state d (Some X))
         = Inr (Q, p, v)"
  using assms by (simp add: build_state_Some split_state_append bindE_def)

theorem split_build_state_roundtrip_witness:
  "length [1, 2 :: real] = nQ cart_dsystem \<and> length [3 :: real] = np cart_dsystem \<and>
   length [4 :: real] = nv cart_dsystem \<and>
   bindE (build_state cart_dsystem (Some [1, 2]) (Some [3]) (Some [4]))
     (\<lambda>X. split_state cart_dsystem (Some X)) = Inr ([1, 2], [3], [4])"
  using split_build_state_roundtrip [of "[1, 2]" cart_dsystem "[3]" "[4]"]
  by (simp add: counts_cart)

text \<open>
  C9. \<^verbatim>\<open>split_state\<close> called with \<^verbatim>\<open>X = None\<close> (or with no argument) raises the
  \<^verbatim>\<open>NameError\<close> of the unbound name \<^verbatim>\<open>nd\<close> and returns nothing, for every adapter;
  \<^verbatim>\<open>split_input\<close> called with \<^verbatim>\<open>U = None\<close> returns the zero vectors \<open>u\<close> of length \<open>nu\<close>
  and \<open>rho\<close> of length \<open>nrho\<close>.
\<close>

theorem split_state_None_raises:
  "split_state d None = Inl (NameError ''nd'') \<and>
   split_input d None = (zeros (nu d), zeros (nrho d))"
  by (simp add: split_state_def split_input_def getslice_def zeros_def nU_def slice_u_def
      slice_rho_def)

section \<open>Trajectories\<close>

lemma squeeze_Arr1: "2 \<le> length t \<Longrightarrow> squeeze t = Arr1 t"
  by (cases t rule: list.exhaust; cases "tl t") (auto simp: squeeze_def)

text \<open>
  C4. For an adapter whose time vector is \<open>t\<close> of length \<open>n\<close>, with at least two instants,
  \<^verbatim>\<open>build_trajectory()\<close> with every argument omitted returns a state trajectory of shape
  \<open>(n, nX)\<close> and an input trajectory of shape \<open>(n - 1, nU)\<close>, every entry zero. (A vector of
  one instant is stored as a zero-dimensional array, which the setter of \<^verbatim>\<open>time\<close> refuses;
  see \<open>build_trajectory_one_instant\<close>.)
\<close>

theorem build_trajectory_default:
  assumes "time d = squeeze t" and "2 \<le> length t"
  shows "build_trajectory d None None None None None =
         Inr (Array2 (length t) (nX d) (replicate (length t) (replicate (nX d) 0)),
              Array2 (length t - 1) (nU d) (replicate (length t - 1) (replicate (nU d) 0)))"
proof -
  have t: "time d = Arr1 t"
    using assms by (simp add: squeeze_Arr1)
  have n: "nat (int (length t) - 1) = length t - 1" "t \<noteq> []"
    using assms(2) by auto
  show ?thesis
    by (simp add: build_trajectory_def check_length_def t zeros2_int_def zeros2_def
        assign_cols_def n)
qed

theorem build_trajectory_default_witness:
  "time kin_dsystem = squeeze [0, 1] \<and> 2 \<le> length [0, 1 :: real] \<and>
   build_trajectory kin_dsystem None None None None None =
     Inr (Array2 2 2 [[0, 0], [0, 0]], Array2 1 1 [[0]])"
  using build_trajectory_default [of kin_dsystem "[0, 1]"]
  by (simp add: counts_kin squeeze_def nX_def nU_def numeral_2_eq_2)

lemma build_trajectory_one_instant:
  "build_trajectory (DSystem vi [x]) None None None None None =
     Inl (TypeError ''len() of unsized object'')"
  by (simp add: build_trajectory_def check_length_def DSystem_def squeeze_def)

lemma set_time_one_instant: "set_time d [x] = Inl AssertionError"
  by (simp add: set_time_def squeeze_def)

text \<open>
  C3. On the adapter of the kinematic example, whose time vector has length 2,
  \<^verbatim>\<open>build_trajectory\<close> called with a \<open>Q\<close> of length 1 raises the \<^verbatim>\<open>TypeError\<close> of the
  call \<^verbatim>\<open>bad_arguments(reason)\<close>, whose message names neither \<open>Q\<close> nor the expected length 2:
  the \<^verbatim>\<open>StandardError\<close> that reports the expected length is not raised.
\<close>

theorem build_trajectory_short_Q:
  "len (time kin_dsystem) = Inr 2 \<and>
   build_trajectory kin_dsystem (Some (Array2 1 1 [[0]])) None None None None =
     Inl (TypeError ''bad_arguments() takes exactly 2 arguments (1 given)'')"
  by (simp add: build_trajectory_def check_length_def counts_kin call_bad_arguments_def)

text \<open>
  Whatever component has the wrong length, the call does not return: no array is truncated
  or padded along the time axis.
\<close>

lemma build_trajectory_mismatch:
  assumes "time d = Arr1 ts"
    and "(\<exists>a. Q = Some a \<and> nrows a \<noteq> length ts) \<or> (\<exists>a. p = Some a \<and> nrows a \<noteq> length ts) \<or>
         (\<exists>a. v = Some a \<and> nrows a \<noteq> length ts) \<or>
         (\<exists>a. u = Some a \<and> int (nrows a) \<noteq> int (length ts) - 1) \<or>
         (\<exists>a. rho = Some a \<and> int (nrows a) \<noteq> int (length ts) - 1)"
  shows "build_trajectory d Q p v u rho =
         Inl (TypeError ''bad_arguments() takes exactly 2 arguments (1 given)'')"
  using assms
  by (auto simp: build_trajectory_def check_length_def bindE_def call_bad_arguments_def
      split: option.splits)

text \<open>
  C6. On the adapter of the kinematic example, whose time vector has length 2,
  \<^verbatim>\<open>split_trajectory\<close> called with a state trajectory of length 2 and \<^verbatim>\<open>U\<close> omitted returns
  \<open>u\<close> and \<open>rho\<close> of length 3, which is \<open>len(time) + 1\<close> and not \<open>len(time) - 1\<close>.
\<close>

theorem split_trajectory_X_only:
  "len (time kin_dsystem) = Inr 2 \<and>
   split_trajectory kin_dsystem (Some (Array2 2 2 [[0, 0], [0, 0]])) None =
     Inr (Array2 2 1 [[0], [0]], Array2 2 0 [[], []], Array2 2 1 [[0], [0]],
          Array2 3 0 [[], [], []], Array2 3 1 [[0], [0], [0]])"
  by (simp add: split_trajectory_def counts_kin array_defs numeral_3_eq_3)

text \<open>
  For every adapter and every state trajectory, that branch returns one row more than the
  state trajectory has, not one row fewer.
\<close>

lemma split_trajectory_U_omitted:
  assumes "split_trajectory d (Some X) None = Inr (Q, p, v, u, rho)"
  shows "nrows u = nrows X + 1 \<and> nrows rho = nrows X + 1"
  using assms
  by (auto simp: split_trajectory_def getblock_def all_rows_def slice_len_def zeros2_def)

section \<open>The second derivatives\<close>

text \<open>
  C7. If two covectors \<open>z\<close> and \<open>z'\<close> have the same \<open>Q\<close> slice and the same \<open>p\<close> slice (they
  may differ on the \<open>v\<close> slice), then \<^verbatim>\<open>fdxdx\<close>, \<^verbatim>\<open>fdxdu\<close> and \<^verbatim>\<open>fdudu\<close> each return the same
  result for \<open>z\<close> as for \<open>z'\<close>.
\<close>

theorem second_derivatives_ignore_v:
  assumes "getslice z (slice_Q d) = getslice z' (slice_Q d)"
    and "getslice z (slice_p d) = getslice z' (slice_p d)"
  shows "fdxdx d z = fdxdx d z' \<and> fdxdu d z = fdxdu d z' \<and> fdudu d z = fdudu d z'"
  by (simp add: fdxdx_def fdxdu_def fdudu_def assms)

lemma fdxdx_cart:
  "fdxdx cart_dsystem [1, 2, 3, 5] =
     Inr (Array2 4 4 [[4, 8, 10, 0], [8, 6, 7, 0], [10, 7, 17, 0], [0, 0, 0, 0]])"
  by (simp add: fdxdx_def counts_cart cart_varint_def array_defs eval_nat_numeral)

theorem second_derivatives_ignore_v_witness:
  "getslice [1, 2, 3, 4] (slice_Q cart_dsystem) = getslice [1, 2, 3, 5 :: real] (slice_Q cart_dsystem) \<and>
   getslice [1, 2, 3, 4] (slice_p cart_dsystem) = getslice [1, 2, 3, 5 :: real] (slice_p cart_dsystem) \<and>
   fdxdx cart_dsystem [1, 2, 3, 4] =
     Inr (Array2 4 4 [[4, 8, 10, 0], [8, 6, 7, 0], [10, 7, 17, 0], [0, 0, 0, 0]]) \<and>
   fdxdu cart_dsystem [1, 2, 3, 4] = fdxdu cart_dsystem [1, 2, 3, 5] \<and>
   fdudu cart_dsystem [1, 2, 3, 4] = fdudu cart_dsystem [1, 2, 3, 5]"
  using second_derivatives_ignore_v [of "[1, 2, 3, 4]" cart_dsystem "[1, 2, 3, 5]"] fdxdx_cart
  by (simp add: getslice_def slice_Q_def slice_p_def counts_cart eval_nat_numeral)

section \<open>The map \<open>f\<close> and its first derivatives\<close>

lemma f_split:
  assumes "length (q2 (varint d)) = nQ d" and "length (q1 (varint d)) = nQ d"
    and "length (p2 (varint d)) = np d"
    and "length (dyn_configs (system (varint d))) + nv d = nQ d"
  shows "bindE (f d) (\<lambda>X. split_state d (Some X)) =
         Inr (q2 (varint d), p2 (varint d),
              map (\<lambda>i. (q2 (varint d) ! i - q1 (varint d) ! i) / (t2 (varint d) - t1 (varint d)))
                [nQ d - nv d ..< nQ d])"
proof -
  let ?vi = "varint d"
  let ?nd = "length (dyn_configs (system ?vi))"
  let ?v2 = "drop ?nd (map2 (\<lambda>a b. (a - b) / (t2 ?vi - t1 ?vi)) (q2 ?vi) (q1 ?vi))"
  let ?w = "map (\<lambda>i. (q2 ?vi ! i - q1 ?vi ! i) / (t2 ?vi - t1 ?vi)) [nQ d - nv d ..< nQ d]"
  have len: "length ?v2 = nv d"
    using assms by simp
  have nd: "nQ d - nv d = ?nd"
    using assms(4) by simp
  have v2: "?v2 = ?w"
  proof (rule nth_equalityI)
    show "length ?v2 = length ?w"
      using assms by simp
  next
    fix i assume "i < length ?v2"
    then have i: "i < nv d" using len by simp
    then have "?nd + i < nQ d" using assms(4) by simp
    then show "?v2 ! i = ?w ! i"
      using assms i by (simp add: nd)
  qed
  have "f d = build_state d (Some (q2 ?vi)) (Some (p2 ?vi)) (Some ?v2)"
    by (simp add: f_def Let_def)
  then have "f d = Inr (q2 ?vi @ p2 ?vi @ ?v2)"
    using build_state_Some [OF assms(1) assms(3) len] by simp
  then show ?thesis
    using split_state_append [OF assms(1) assms(3) len] v2 by simp
qed

lemma f_split_drop:
  assumes "length (q2 (varint d)) = nQ d" and "length (q1 (varint d)) = nQ d"
    and "length (p2 (varint d)) = np d"
    and "length (dyn_configs (system (varint d))) = np d" and "nQ d = np d + nv d"
  shows "bindE (f d) (\<lambda>X. split_state d (Some X)) =
         Inr (q2 (varint d), p2 (varint d),
              map2 (\<lambda>a b. (a - b) / (t2 (varint d) - t1 (varint d)))
                (drop (np d) (q2 (varint d))) (drop (np d) (q1 (varint d))))"
proof -
  let ?vi = "varint d"
  let ?w = "map (\<lambda>i. (q2 ?vi ! i - q1 ?vi ! i) / (t2 ?vi - t1 ?vi)) [nQ d - nv d ..< nQ d]"
  let ?z = "map2 (\<lambda>a b. (a - b) / (t2 ?vi - t1 ?vi)) (drop (np d) (q2 ?vi)) (drop (np d) (q1 ?vi))"
  have "bindE (f d) (\<lambda>X. split_state d (Some X)) = Inr (q2 ?vi, p2 ?vi, ?w)"
    using assms by (intro f_split) simp_all
  moreover have "?w = ?z"
    using assms by (auto intro!: nth_equalityI)
  ultimately show ?thesis by simp
qed

lemma set_d_Inr:
  assumes "set_d M d xk uk k lambda_k = Inr d'"
  shows "\<exists>ta tb vi0 vi'.
           getitem (time d) k = Inr ta \<and> getitem (time d) (k + 1) = Inr tb \<and>
           initialize_from_state M (varint d) ta (getslice xk (slice_Q d))
             (getslice xk (slice_p d)) lambda_k = Inr vi0 \<and>
           varint_step M vi0 tb (getslice uk (slice_u d)) (getslice uk (slice_rho d)) = Inr vi' \<and>
           d' = d\<lparr>cur_k := k, varint := vi'\<rparr>"
  using assms
  by (auto simp: set_d_def Let_def bindE_eq_Inr split_state_def split_input_def slice_Q_def
      slice_p_def slice_u_def slice_rho_def nU_def)

lemma step_Inr:
  assumes "step M d uk = Inr d'"
  shows "\<exists>tb vi'. getitem (time d) (cur_k d + 1 + 1) = Inr tb \<and>
           varint_step M (varint d) tb (getslice uk (slice_u d)) (getslice uk (slice_rho d)) = Inr vi' \<and>
           d' = d\<lparr>cur_k := cur_k d + 1, varint := vi'\<rparr>"
  using assms
  by (auto simp: step_def Let_def bindE_eq_Inr split_input_def slice_u_def slice_rho_def nU_def)

lemma contract_kin: "integrator_contract kin_integrator kin_system"
  by (auto simp: integrator_contract_def kin_integrator_def current_def kin_system_def)

lemma contract_init:
  assumes "integrator_contract M sys" and "system vi = sys"
    and "initialize_from_state M vi t q p lam = Inr vi0"
  shows "system vi0 = sys" "phase vi0 = Initialized" "t1 vi0 = t" "q1 vi0 = q" "p1 vi0 = p"
proof -
  have "system vi0 = sys \<and> phase vi0 = Initialized \<and> t1 vi0 = t \<and> q1 vi0 = q \<and> p1 vi0 = p"
    using assms(1) [unfolded integrator_contract_def, THEN conjunct1, rule_format, OF assms(2,3)] .
  then show "system vi0 = sys" "phase vi0 = Initialized" "t1 vi0 = t" "q1 vi0 = q" "p1 vi0 = p"
    by simp_all
qed

lemma contract_step:
  assumes "integrator_contract M sys" and "system vi = sys"
    and "varint_step M vi t u k2 = Inr vi'"
  shows "system vi' = sys" "phase vi' = Stepped" "(t1 vi', q1 vi', p1 vi') = current vi"
    "t2 vi' = t"
    "length (q1 vi') = length (configs sys) \<Longrightarrow> length (p1 vi') = length (dyn_configs sys) \<Longrightarrow>
     length k2 = length (kin_configs sys) \<Longrightarrow>
     length (q2 vi') = length (configs sys) \<and> length (p2 vi') = length (dyn_configs sys) \<and>
     drop (length (dyn_configs sys)) (q2 vi') = k2"
proof -
  note a = assms(1) [unfolded integrator_contract_def, THEN conjunct2, rule_format, OF assms(2,3)]
  show "system vi' = sys" "phase vi' = Stepped" "(t1 vi', q1 vi', p1 vi') = current vi"
    "t2 vi' = t"
    using a by simp_all
  show "length (q2 vi') = length (configs sys) \<and> length (p2 vi') = length (dyn_configs sys) \<and>
     drop (length (dyn_configs sys)) (q2 vi') = k2"
    if "length (q1 vi') = length (configs sys)" "length (p1 vi') = length (dyn_configs sys)"
      "length k2 = length (kin_configs sys)"
    using a that by simp
qed

lemma set_stepped:
  assumes c: "integrator_contract M (system (varint d))" and k: "consistent d"
    and tm: "time d = Arr1 ts" "0 \<le> j"
    and sz: "length xk = nX d" "length u = nU d"
    and run: "set_d M d xk u j lambda_k = Inr d'"
  shows "stepped_at d ts j (drop (np d) (getslice xk (slice_Q d))) (getslice u (slice_rho d)) d'"
proof -
  let ?sys = "system (varint d)"
  let ?Q = "getslice xk (slice_Q d)" and ?P = "getslice xk (slice_p d)"
  let ?r = "getslice u (slice_rho d)"
  from set_d_Inr [OF run] obtain ta tb vi0 vi' where
    ta: "getitem (time d) j = Inr ta" and tb: "getitem (time d) (j + 1) = Inr tb" and
    i: "initialize_from_state M (varint d) ta ?Q ?P lambda_k = Inr vi0" and
    s: "varint_step M vi0 tb (getslice u (slice_u d)) ?r = Inr vi'" and
    d': "d' = d\<lparr>cur_k := j, varint := vi'\<rparr>"
    by blast
  have idx: "nat (j + 1) < length ts" "ta = ts ! nat j" "tb = ts ! nat (j + 1)"
    using ta tb tm by (auto simp: Let_def split: if_splits)
  have lQ: "length ?Q = length (configs ?sys)" and lP: "length ?P = length (dyn_configs ?sys)"
    and lr: "length ?r = length (kin_configs ?sys)"
    using sz k by (simp_all add: consistent_def getslice_def slice_Q_def slice_p_def
        slice_rho_def nX_def nU_def)
  have i0: "system vi0 = ?sys" "phase vi0 = Initialized" "t1 vi0 = ta" "q1 vi0 = ?Q" "p1 vi0 = ?P"
    using contract_init [OF c refl i] by simp_all
  have cur: "current vi0 = (ta, ?Q, ?P)"
    using i0 by (simp add: current_def)
  have s0: "system vi' = ?sys" "phase vi' = Stepped" "(t1 vi', q1 vi', p1 vi') = current vi0"
    "t2 vi' = tb"
    using contract_step(1-4) [OF c i0(1) s] by simp_all
  have s1: "t1 vi' = ta" "q1 vi' = ?Q" "p1 vi' = ?P"
    using s0(3) cur by simp_all
  have s2: "length (q2 vi') = length (configs ?sys) \<and> length (p2 vi') = length (dyn_configs ?sys) \<and>
          drop (length (dyn_configs ?sys)) (q2 vi') = ?r"
    using contract_step(5) [OF c i0(1) s] s1 lQ lP lr by simp
  show ?thesis
    using k tm(2) idx s0 s1 s2 lQ
    by (simp add: stepped_at_def d' consistent_def)
qed

lemma step_stepped:
  assumes c: "integrator_contract M (system (varint d))" and k: "consistent d"
    and tm: "time d = Arr1 ts"
    and sz: "length u = nU d"
    and st: "stepped_at d ts j rp r d1"
    and run: "step M d1 u = Inr d2"
  shows "stepped_at d ts (j + 1) r (getslice u (slice_rho d)) d2"
proof -
  let ?sys = "system (varint d)"
  let ?r = "getslice u (slice_rho d)"
  have d1: "d1 = d\<lparr>cur_k := j, varint := varint d1\<rparr>"
    using st by (simp add: stepped_at_def)
  have f1: "time d1 = Arr1 ts" "cur_k d1 = j" "slice_u d1 = slice_u d" "slice_rho d1 = slice_rho d"
    by (subst d1, simp add: tm slice_u_def slice_rho_def nU_def)+
  from step_Inr [OF run] obtain tb vi' where
    tb: "getitem (time d1) (cur_k d1 + 1 + 1) = Inr tb" and
    s: "varint_step M (varint d1) tb (getslice u (slice_u d1)) (getslice u (slice_rho d1)) = Inr vi'" and
    d2: "d2 = d1\<lparr>cur_k := cur_k d1 + 1, varint := vi'\<rparr>"
    by blast
  have j: "0 \<le> j" using st by (simp add: stepped_at_def)
  have idx: "nat (j + 1 + 1) < length ts" "tb = ts ! nat (j + 1 + 1)"
    using tb f1 j by (auto simp: Let_def split: if_splits)
  have v1: "system (varint d1) = ?sys" "phase (varint d1) = Stepped"
    "t2 (varint d1) = ts ! nat (j + 1)" "length (q2 (varint d1)) = nQ d"
    "length (p2 (varint d1)) = np d" "drop (np d) (q2 (varint d1)) = r"
    using st by (simp_all add: stepped_at_def)
  have cur: "current (varint d1) = (ts ! nat (j + 1), q2 (varint d1), p2 (varint d1))"
    using v1 by (simp add: current_def)
  have lr: "length ?r = length (kin_configs ?sys)"
    using sz k by (simp add: consistent_def getslice_def slice_rho_def nU_def)
  have s0: "system vi' = ?sys" "phase vi' = Stepped" "(t1 vi', q1 vi', p1 vi') = current (varint d1)"
    "t2 vi' = tb"
    using contract_step(1-4) [OF c v1(1) s] by simp_all
  have s1: "t1 vi' = ts ! nat (j + 1)" "q1 vi' = q2 (varint d1)" "p1 vi' = p2 (varint d1)"
    using s0(3) cur by simp_all
  have s2: "length (q2 vi') = length (configs ?sys) \<and> length (p2 vi') = length (dyn_configs ?sys) \<and>
          drop (length (dyn_configs ?sys)) (q2 vi') = ?r"
    using contract_step(5) [OF c v1(1) s] v1(4,5) s1 lr k f1(4)
    by (simp add: consistent_def)
  have "d2 = d\<lparr>cur_k := j + 1, varint := vi'\<rparr>"
    by (subst d2, subst d1, simp add: f1)
  then show ?thesis
    using k j idx s0 s1 s2 v1
    by (simp add: stepped_at_def consistent_def)
qed

lemma steps_stepped:
  assumes c: "integrator_contract M (system (varint d))" and k: "consistent d"
    and tm: "time d = Arr1 ts"
  shows "stepped_at d ts j rp r d1 \<Longrightarrow> list_all (\<lambda>u. length u = nU d) us \<Longrightarrow>
         steps M d1 us = Inr d' \<Longrightarrow>
         stepped_at d ts (j + int (length us))
           ((rp # r # map (\<lambda>u. getslice u (slice_rho d)) us) ! length us)
           ((rp # r # map (\<lambda>u. getslice u (slice_rho d)) us) ! (length us + 1)) d'"
proof (induction us arbitrary: d1 j rp r)
  case Nil
  then show ?case by simp
next
  case (Cons u us)
  from Cons.prems(3) obtain d2 where
    one: "step M d1 u = Inr d2" and rest: "steps M d2 us = Inr d'"
    by (auto simp: bindE_eq_Inr)
  have u: "length u = nU d" and us: "list_all (\<lambda>u. length u = nU d) us"
    using Cons.prems(2) by simp_all
  have "stepped_at d ts (j + 1) r (getslice u (slice_rho d)) d2"
    by (rule step_stepped [OF c k tm u Cons.prems(1) one])
  from Cons.IH [OF this us rest]
  have "stepped_at d ts (j + 1 + int (length us))
          ((r # getslice u (slice_rho d) # map (\<lambda>u. getslice u (slice_rho d)) us) ! length us)
          ((r # getslice u (slice_rho d) # map (\<lambda>u. getslice u (slice_rho d)) us) !
             (length us + 1)) d'" .
  moreover have "j + 1 + int (length us) = j + int (length (u # us))"
    by simp
  ultimately show ?case
    by (simp only: nth_Cons_Suc length_Cons list.map Suc_eq_plus1 [symmetric])
qed

lemma rho_at_nth:
  "i \<le> length (u0 # us) \<Longrightarrow>
   (drop (np d) (getslice xk (slice_Q d)) # getslice u0 (slice_rho d) #
      map (\<lambda>u. getslice u (slice_rho d)) us) ! i = rho_at d xk (u0 # us) i"
  by (cases i) (auto simp: rho_at_def nth_Cons split: nat.splits)

lemma run_kin3:
  "bindE (set_d kin_integrator kin_dsystem3 [5, 0] [7] 0 None)
     (\<lambda>d1. steps kin_integrator d1 [[13]]) =
   Inr (kin_dsystem3\<lparr>cur_k := 1,
          varint := kin_varint\<lparr>phase := Stepped, t1 := 1, q1 := [7], p1 := [],
                      t2 := 2, q2 := [13], p2 := []\<rparr>\<rparr>)"
  by (simp add: counts_kin3 set_d_def step_def split_state_def split_input_def
      kin_integrator_def getslice_def slice_Q_def slice_p_def slice_u_def slice_rho_def nU_def)

text \<open>
  C2. Take an integrator that meets the spec's contract, an adapter over a strictly
  increasing time vector \<open>t\<close>, and any state \<open>xk\<close> and inputs \<open>U[k], ..., U[k+m]\<close> of the
  declared lengths. After \<^verbatim>\<open>set(xk, U[k], k)\<close> and then \<^verbatim>\<open>step(U[k+1])\<close>, ..., \<^verbatim>\<open>step(U[k+m])\<close>,
  the adapter is at the index \<open>k + m\<close> and \<^verbatim>\<open>f()\<close> returns the state of the index
  \<open>K = k + m + 1\<close>: its \<open>Q\<close> slice is the integrator's \<open>q2\<close>, its \<open>p\<close> slice is the
  integrator's \<open>p2\<close>, and its \<open>v\<close> slice is \<open>(rho[K] - rho[K-1]) / (t[K] - t[K-1])\<close>
  componentwise, where \<open>rho[K]\<close> is the \<open>rho\<close> slice of the last input and \<open>rho[K-1]\<close> that of
  the input before it (for \<open>m = 0\<close>, the kinematic part of the \<open>Q\<close> slice of \<open>xk\<close>).
\<close>

theorem f_on_trajectory:
  assumes "integrator_contract M (system (varint d))" and "consistent d"
    and "time d = Arr1 ts" and "sorted_wrt (<) ts" and "0 \<le> k"
    and "length xk = nX d" and "list_all (\<lambda>u. length u = nU d) (u0 # us)"
    and "bindE (set_d M d xk u0 k lambda_k) (\<lambda>d1. steps M d1 us) = Inr d'"
  shows "cur_k d' = k + int (length us) \<and>
         bindE (f d') (\<lambda>X. split_state d' (Some X)) =
           Inr (q2 (varint d'), p2 (varint d'),
                map2 (\<lambda>a b. (a - b) /
                        (ts ! (nat k + length (u0 # us)) - ts ! (nat k + length (u0 # us) - 1)))
                  (rho_at d xk (u0 # us) (length (u0 # us)))
                  (rho_at d xk (u0 # us) (length (u0 # us) - 1)))"
proof -
  let ?rp = "drop (np d) (getslice xk (slice_Q d))"
  let ?r = "getslice u0 (slice_rho d)"
  let ?R = "?rp # ?r # map (\<lambda>u. getslice u (slice_rho d)) us"
  let ?m = "length us"
  from assms(8) obtain d1 where
    one: "set_d M d xk u0 k lambda_k = Inr d1" and rest: "steps M d1 us = Inr d'"
    by (auto simp: bindE_eq_Inr)
  have u0: "length u0 = nU d" and us: "list_all (\<lambda>u. length u = nU d) us"
    using assms(7) by simp_all
  have "stepped_at d ts k ?rp ?r d1"
    by (rule set_stepped [OF assms(1,2,3,5,6) u0 one])
  from steps_stepped [OF assms(1,2,3) this us rest]
  have st: "stepped_at d ts (k + int ?m) (?R ! ?m) (?R ! (?m + 1)) d'" .
  have R: "?R ! ?m = rho_at d xk (u0 # us) (length (u0 # us) - 1)"
    "?R ! (?m + 1) = rho_at d xk (u0 # us) (length (u0 # us))"
    using rho_at_nth [of ?m u0 us d xk] rho_at_nth [of "?m + 1" u0 us d xk] by simp_all
  let ?vi = "varint d'"
  have d': "d' = d\<lparr>cur_k := k + int ?m, varint := ?vi\<rparr>"
    using st by (simp add: stepped_at_def)
  have cnt: "nQ d' = nQ d" "np d' = np d" "nv d' = nv d" "cur_k d' = k + int ?m"
    by (subst d', simp)+
  have v: "system ?vi = system (varint d)" "t1 ?vi = ts ! nat (k + int ?m)"
    "t2 ?vi = ts ! nat (k + int ?m + 1)" "length (q1 ?vi) = nQ d" "length (q2 ?vi) = nQ d"
    "length (p2 ?vi) = np d" "drop (np d) (q1 ?vi) = ?R ! ?m" "drop (np d) (q2 ?vi) = ?R ! (?m + 1)"
    using st by (simp_all add: stepped_at_def)
  have idx: "nat (k + int ?m) = nat k + length (u0 # us) - 1"
    "nat (k + int ?m + 1) = nat k + length (u0 # us)"
    using assms(5) by (simp_all add: nat_add_distrib)
  have "bindE (f d') (\<lambda>X. split_state d' (Some X)) =
         Inr (q2 ?vi, p2 ?vi,
              map2 (\<lambda>a b. (a - b) / (t2 ?vi - t1 ?vi)) (drop (np d') (q2 ?vi)) (drop (np d') (q1 ?vi)))"
    using v assms(2) by (intro f_split_drop) (simp_all add: cnt consistent_def)
  then show ?thesis
    using v(2,3,7,8) R idx cnt by simp
qed

theorem f_on_trajectory_witness:
  "integrator_contract kin_integrator (system (varint kin_dsystem3)) \<and> consistent kin_dsystem3 \<and>
   time kin_dsystem3 = Arr1 [0, 1, 2] \<and> sorted_wrt (<) [0, 1, 2 :: real] \<and> (0 :: int) \<le> 0 \<and>
   length [5, 0 :: real] = nX kin_dsystem3 \<and>
   list_all (\<lambda>u. length u = nU kin_dsystem3) [[7], [13 :: real]] \<and>
   bindE (bindE (set_d kin_integrator kin_dsystem3 [5, 0] [7] 0 None)
            (\<lambda>d1. steps kin_integrator d1 [[13]]))
     (\<lambda>d'. bindE (f d') (\<lambda>X. split_state d' (Some X))) = Inr ([13], [], [(13 - 7) / (2 - 1)])"
proof -
  have c: "integrator_contract kin_integrator (system (varint kin_dsystem3))"
    using contract_kin by (simp add: counts_kin3 kin_varint_def)
  have h: "sorted_wrt (<) [0, 1, 2 :: real]" "length [5, 0 :: real] = nX kin_dsystem3"
    "list_all (\<lambda>u. length u = nU kin_dsystem3) [[7], [13 :: real]]"
    by (simp_all add: nX_def nU_def counts_kin3)
  let ?D = "kin_dsystem3\<lparr>cur_k := 1,
          varint := kin_varint\<lparr>phase := Stepped, t1 := 1, q1 := [7], p1 := [],
                      t2 := 2, q2 := [13], p2 := []\<rparr>\<rparr>"
  have "bindE (f ?D) (\<lambda>X. split_state ?D (Some X)) = Inr ([13], [], [(13 - 7) / (2 - 1)])"
    using f_on_trajectory [OF c consistent_kin3 counts_kin3(6) h(1) order_refl h(2,3) run_kin3]
    by (simp add: counts_kin3 rho_at_def getslice_def slice_Q_def slice_rho_def nU_def)
  then have "bindE (bindE (set_d kin_integrator kin_dsystem3 [5, 0] [7] 0 None)
            (\<lambda>d1. steps kin_integrator d1 [[13]]))
     (\<lambda>d'. bindE (f d') (\<lambda>X. split_state d' (Some X))) = Inr ([13], [], [(13 - 7) / (2 - 1)])"
    by (simp only: run_kin3 bindE_Inr)
  then show ?thesis
    using c consistent_kin3 counts_kin3(6) h by (intro conjI) simp_all
qed

text \<open>
  After \<^verbatim>\<open>set\<close> alone the same holds under an assumption on that one call of the integrator:
  \<^verbatim>\<open>set(xk, uk, k)\<close> hands the integrator the times of the indices \<open>k\<close> and \<open>k + 1\<close>, the \<open>Q\<close>
  and \<open>p\<close> slices of \<open>xk\<close> and the \<open>u\<close> and \<open>rho\<close> slices of \<open>uk\<close>; if the integrator then
  holds the initial time and configuration as \<open>t1\<close> and \<open>q1\<close>, the new time as \<open>t2\<close>, and the
  prescribed \<open>rho\<close> as the kinematic part of \<open>q2\<close>, the \<open>v\<close> slice of \<^verbatim>\<open>f()\<close> is
  \<open>(rho[k+1] - rho[k]) / (t[k+1] - t[k])\<close>, with \<open>rho[k]\<close> the kinematic part of the \<open>Q\<close> slice
  of \<open>xk\<close>.
\<close>

lemma f_after_set:
  assumes set: "set_d M d xk uk k lambda_k = Inr d'"
    and tm: "time d = Arr1 ts" "0 \<le> k"
    and contract: "\<And>vi0 vi'.
        initialize_from_state M (varint d) (ts ! nat k) (getslice xk (slice_Q d))
          (getslice xk (slice_p d)) lambda_k = Inr vi0 \<Longrightarrow>
        varint_step M vi0 (ts ! nat (k + 1)) (getslice uk (slice_u d))
          (getslice uk (slice_rho d)) = Inr vi' \<Longrightarrow>
        t1 vi' = ts ! nat k \<and> q1 vi' = getslice xk (slice_Q d) \<and> t2 vi' = ts ! nat (k + 1) \<and>
        length (q2 vi') = nQ d \<and> length (p2 vi') = np d \<and>
        drop (np d) (q2 vi') = getslice uk (slice_rho d)"
    and layout: "length xk = nX d" "length uk = nU d" "nQ d = np d + nv d" "nrho d = nv d"
      "length (dyn_configs (system (varint d'))) = np d"
  shows "bindE (f d') (\<lambda>X. split_state d' (Some X)) =
         Inr (q2 (varint d'), p2 (varint d'),
              map2 (\<lambda>r q. (r - q) / (ts ! nat (k + 1) - ts ! nat k))
                (getslice uk (slice_rho d)) (drop (np d) (getslice xk (slice_Q d))))"
proof -
  let ?Q = "getslice xk (slice_Q d)" and ?P = "getslice xk (slice_p d)"
  let ?u = "getslice uk (slice_u d)" and ?r = "getslice uk (slice_rho d)"
  from set_d_Inr [OF set] obtain ta tb vi0 vi' where
    ta: "getitem (time d) k = Inr ta" and tb: "getitem (time d) (k + 1) = Inr tb" and
    i: "initialize_from_state M (varint d) ta ?Q ?P lambda_k = Inr vi0" and
    s: "varint_step M vi0 tb ?u ?r = Inr vi'" and d': "d' = d\<lparr>cur_k := k, varint := vi'\<rparr>"
    by blast
  have tav: "ta = ts ! nat k" and tbv: "tb = ts ! nat (k + 1)"
    using ta tb tm by (auto simp: Let_def split: if_splits)
  have c: "t1 vi' = ta" "q1 vi' = ?Q" "t2 vi' = tb" "length (q2 vi') = nQ d"
    "length (p2 vi') = np d" "drop (np d) (q2 vi') = ?r"
    using contract [OF i [unfolded tav] s [unfolded tbv]] tav tbv by blast+
  have lQ: "length ?Q = nQ d" and lr: "length ?r = nv d"
    using layout by (simp_all add: getslice_def slice_Q_def slice_rho_def nX_def nU_def)
  have vi: "varint d' = vi'" and cnt: "nQ d' = nQ d" "np d' = np d" "nv d' = nv d"
    by (simp_all add: d')
  let ?w = "map (\<lambda>i. (q2 vi' ! i - q1 vi' ! i) / (t2 vi' - t1 vi')) [nQ d - nv d ..< nQ d]"
  let ?z = "map2 (\<lambda>r q. (r - q) / (ts ! nat (k + 1) - ts ! nat k)) ?r (drop (np d) ?Q)"
  have "bindE (f d') (\<lambda>X. split_state d' (Some X)) = Inr (q2 vi', p2 vi', ?w)"
    using f_split [of d'] c lQ layout(3,5) by (simp add: vi cnt)
  moreover have "?w = ?z"
  proof (rule nth_equalityI)
    show "length ?w = length ?z"
      using lQ lr layout(3) by simp
  next
    fix j
    assume "j < length ?w"
    then have j: "j < nv d" using layout(3) by simp
    have "?r ! j = drop (np d) (q2 vi') ! j"
      using c(6) by simp
    also have "\<dots> = q2 vi' ! (np d + j)"
      using j c(4) layout(3) by simp
    finally have r: "?r ! j = q2 vi' ! (np d + j)" .
    show "?w ! j = ?z ! j"
      using j lQ lr layout(3) r c(1,2,3) tav tbv by simp
  qed
  ultimately show ?thesis by (simp add: vi)
qed

text \<open>The integrator of the kinematic example meets what the lemma assumes.\<close>

lemma f_after_set_kin:
  "bindE (set_d kin_integrator kin_dsystem [q, v] [r] 0 None)
     (\<lambda>d'. bindE (f d') (\<lambda>X. split_state d' (Some X))) = Inr ([r], [], [(r - q) / (1 - 0)])"
proof -
  let ?d' = "kin_dsystem\<lparr>cur_k := 0,
    varint := kin_varint\<lparr>phase := Stepped, t1 := 0, q1 := [q], p1 := [], t2 := 1, q2 := [r], p2 := []\<rparr>\<rparr>"
  have s: "set_d kin_integrator kin_dsystem [q, v] [r] 0 None = Inr ?d'"
    by (simp add: counts_kin set_d_def split_state_def split_input_def kin_integrator_def
        getslice_def slice_Q_def slice_p_def slice_u_def slice_rho_def nU_def)
  have "bindE (f ?d') (\<lambda>X. split_state ?d' (Some X)) =
         Inr (q2 (varint ?d'), p2 (varint ?d'),
              map2 (\<lambda>r q. (r - q) / ([0, 1] ! nat (0 + 1) - [0, 1] ! nat 0))
                (getslice [r] (slice_rho kin_dsystem))
                (drop (np kin_dsystem) (getslice [q, v] (slice_Q kin_dsystem))))"
    by (rule f_after_set [OF s])
      (auto simp: counts_kin kin_integrator_def kin_varint_def kin_system_def getslice_def
        slice_Q_def slice_p_def slice_u_def slice_rho_def nX_def nU_def)
  then show ?thesis
    by (simp add: s counts_kin getslice_def slice_Q_def slice_rho_def nU_def)
qed

text \<open>
  C1. On the kinematic example at index 0 (time step 1), the state \<open>X = [q, v]\<close> and the input
  \<open>U = [r]\<close> give \<open>f = [r, r - q]\<close>: the derivative of the \<open>v\<close> component of \<open>f\<close> is \<open>-1\<close>
  with respect to \<open>q\<close> and \<open>0\<close> with respect to \<open>v\<close>. The \<open>v\<close> row of \<^verbatim>\<open>fdx()\<close> is \<open>[0, -1]\<close>:
  it has the two the other way round, so \<^verbatim>\<open>fdx()\<close> is not the Jacobian of \<^verbatim>\<open>f()\<close>.
\<close>

theorem fdx_kinematic_row:
  "(\<forall>q v r. bindE (set_d kin_integrator kin_dsystem [q, v] [r] 0 None) f = Inr [r, r - q]) \<and>
   (\<forall>q v r. bindE (set_d kin_integrator kin_dsystem [q, v] [r] 0 None) fdx =
      Inr (Array2 2 2 [[0, 0], [0, - 1]]))"
  by (simp add: set_d_def f_def fdx_def time_step_def split_state_def split_input_def
      build_state_def assign_opt_def setslice_def zeros_def ones_def diag_def kin_integrator_def
      counts_kin kin_varint_def kin_system_def array_defs numeral_2_eq_2)

text \<open>
  The same holds of every adapter and every integrator: row \<open>i\<close> of the \<open>v\<close> block of
  \<^verbatim>\<open>fdx()\<close> is zero but for \<open>-1/dt\<close> in column \<open>i\<close> of the \<open>v\<close> block, while by \<open>f_after_set\<close>
  component \<open>i\<close> of the \<open>v\<close> slice of \<^verbatim>\<open>f()\<close> is \<open>(rho[i] - Q[np + i]) / dt\<close>, which depends on
  the \<open>Q\<close> slice of the state and not on its \<open>v\<close> slice.
\<close>

lemma broadcast_length: "length (broadcast m xs) = m"
  by (simp add: broadcast_def)

lemma setblock_row_after:
  assumes "setblock A (a, b) cs B = Inr A'" and "length (rows A) = nrows A"
    and "a \<le> b" and "b \<le> nrows A" and "b \<le> r"
  shows "rows A' ! r = rows A ! r \<and> length (rows A') = nrows A' \<and> nrows A' = nrows A \<and>
         ncols A' = ncols A"
proof -
  let ?m = "slice_len (nrows A) (a, b)"
  have m: "?m = b - a"
    using assms(3,4) by (simp add: slice_len_def)
  let ?mid = "map2 (\<lambda>r b. take (fst cs) r @ broadcast (slice_len (ncols A) cs) b @
                 drop (fst cs + slice_len (ncols A) cs) r)
               (getslice (rows A) (a, b)) (broadcast ?m (rows B))"
  have A': "A' = Array2 (nrows A) (ncols A) (take a (rows A) @ ?mid @ drop (a + ?m) (rows A))"
    using assms(1) by (auto simp: setblock_def Let_def split: if_splits)
  define mid where "mid = ?mid"
  have lmid: "length mid = b - a"
    using assms(2,3,4) by (simp add: mid_def getslice_def broadcast_length m)
  have la: "length (take a (rows A)) = a"
    using assms(2,3,4) by simp
  have ab: "a + ?m = b"
    using assms(3) by (simp add: m)
  have nlt: "\<not> r < a" "\<not> r - a < b - a"
    using assms(3,5) by arith+
  have "(take a (rows A) @ mid @ drop b (rows A)) ! r = (mid @ drop b (rows A)) ! (r - a)"
    using nlt(1) la by (simp only: nth_append if_False)
  also have "\<dots> = drop b (rows A) ! (r - a - (b - a))"
    using nlt(2) lmid by (simp only: nth_append if_False)
  also have "\<dots> = rows A ! r"
    using assms(2-5) by simp
  finally have "(take a (rows A) @ ?mid @ drop (a + ?m) (rows A)) ! r = rows A ! r"
    by (simp add: ab mid_def)
  moreover have "length (take a (rows A) @ ?mid @ drop (a + ?m) (rows A)) = nrows A"
    using assms(2-4) lmid la by (simp add: ab mid_def [symmetric])
  ultimately show ?thesis
    by (simp add: A')
qed

lemma diag_row:
  "r < length v \<Longrightarrow> rows (diag v) ! r = (replicate (length v) 0)[r := v ! r]"
  by (auto simp: diag_def Let_def intro!: nth_equalityI)

lemma fdx_v_rows:
  assumes "fdx d = Inr J" and "time_step d = Inr dt" and "i < nv d"
  shows "rows J ! (nQ d + np d + i) = (replicate (nX d) 0)[nQ d + np d + i := - 1 / dt]"
proof -
  let ?r = "nQ d + np d + i"
  let ?D = "diag (map (\<lambda>x. x * (- 1) / dt) (ones (nX d)))"
  from assms(1,2) obtain A1 A2 A3 where
    s1: "setblock ?D (slice_Q d) (slice_Q d) (q2_dq1 (varint d)) = Inr A1" and
    s2: "setblock A1 (slice_Q d) (slice_p d) (q2_dp1 (varint d)) = Inr A2" and
    s3: "setblock A2 (slice_p d) (slice_Q d) (p2_dq1 (varint d)) = Inr A3" and
    s4: "setblock A3 (slice_p d) (slice_p d) (p2_dp1 (varint d)) = Inr J"
    by (auto simp: fdx_def bindE_eq_Inr)
  have r: "?r < nX d" using assms(3) by (simp add: nX_def)
  have D: "length (rows ?D) = nrows ?D" "nrows ?D = nX d"
    by (simp_all add: diag_def ones_def Let_def)
  have row0: "rows ?D ! ?r = (replicate (nX d) 0)[?r := - 1 / dt]"
    using diag_row [of ?r "map (\<lambda>x. x * (- 1) / dt) (ones (nX d))"] r by (simp add: ones_def)
  have a1: "rows A1 ! ?r = rows ?D ! ?r \<and> length (rows A1) = nrows A1 \<and> nrows A1 = nrows ?D \<and>
      ncols A1 = ncols ?D"
    using s1 D by (intro setblock_row_after [where a = 0 and b = "nQ d"])
      (simp_all add: slice_Q_def nX_def)
  have a2: "rows A2 ! ?r = rows A1 ! ?r \<and> length (rows A2) = nrows A2 \<and> nrows A2 = nrows A1 \<and>
      ncols A2 = ncols A1"
    using s2 a1 D by (intro setblock_row_after [where a = 0 and b = "nQ d"])
      (simp_all add: slice_Q_def nX_def)
  have a3: "rows A3 ! ?r = rows A2 ! ?r \<and> length (rows A3) = nrows A3 \<and> nrows A3 = nrows A2 \<and>
      ncols A3 = ncols A2"
    using s3 a1 a2 D by (intro setblock_row_after [where a = "nQ d" and b = "nQ d + np d"])
      (simp_all add: slice_p_def nX_def)
  have a4: "rows J ! ?r = rows A3 ! ?r \<and> length (rows J) = nrows J \<and> nrows J = nrows A3 \<and>
      ncols J = ncols A3"
    using s4 a1 a2 a3 D by (intro setblock_row_after [where a = "nQ d" and b = "nQ d + np d"])
      (simp_all add: slice_p_def nX_def)
  show ?thesis
    using a1 a2 a3 a4 row0 by simp
qed

section \<open>Positioning the adapter\<close>

text \<open>
  C8, as the claim states it, fails on the kinematic example: \<^verbatim>\<open>kf()\<close> is 1, and
  \<^verbatim>\<open>set\<close> at the index 1 raises \<^verbatim>\<open>IndexError\<close>, since it reads the time of index 2.
\<close>

theorem set_at_kf_raises:
  "kf kin_dsystem = Inr 1 \<and>
   set_d kin_integrator kin_dsystem [0, 0] [0] 1 None = Inl (IndexError ''index out of bounds'')"
  by (simp add: kf_def set_d_def split_state_def split_input_def counts_kin)

text \<open>
  C8, amended. \<^verbatim>\<open>kf()\<close> returns \<open>len(time) - 1\<close>, and for every index \<open>k\<close> with
  \<open>0 \<le> k < kf()\<close>, \<^verbatim>\<open>set(xk, uk, k)\<close> reads the times of the indices \<open>k\<close> and \<open>k + 1\<close>, both
  within the time vector, and is the integrator's \<^verbatim>\<open>initialize_from_state\<close> at the first of
  these times followed by its \<^verbatim>\<open>step\<close> to the second, leaving the adapter at index \<open>k\<close>: the
  adapter itself raises nothing.
\<close>

theorem set_below_kf:
  assumes "kf d = Inr K" and "0 \<le> k" and "k < K"
  shows "\<exists>ts. time d = Arr1 ts \<and> K = int (length ts) - 1 \<and> nat (k + 1) < length ts \<and>
           getitem (time d) k = Inr (ts ! nat k) \<and>
           getitem (time d) (k + 1) = Inr (ts ! nat (k + 1)) \<and>
           set_d M d xk uk k lambda_k =
             bindE (initialize_from_state M (varint d) (ts ! nat k)
                      (getslice xk (slice_Q d)) (getslice xk (slice_p d)) lambda_k) (\<lambda>vi.
             bindE (varint_step M vi (ts ! nat (k + 1))
                      (getslice uk (slice_u d)) (getslice uk (slice_rho d))) (\<lambda>vi'.
             Inr (d\<lparr>cur_k := k, varint := vi'\<rparr>)))"
proof (cases "time d")
  case (Arr0 x)
  then show ?thesis using assms(1) by (simp add: kf_def)
next
  case (Arr1 ts)
  then have K: "K = int (length ts) - 1"
    using assms(1) by (auto simp: kf_def)
  have "set_d M d xk uk k lambda_k =
             bindE (initialize_from_state M (varint d) (ts ! nat k)
                      (getslice xk (slice_Q d)) (getslice xk (slice_p d)) lambda_k) (\<lambda>vi.
             bindE (varint_step M vi (ts ! nat (k + 1))
                      (getslice uk (slice_u d)) (getslice uk (slice_rho d))) (\<lambda>vi'.
             Inr (d\<lparr>cur_k := k, varint := vi'\<rparr>)))"
    using assms(2,3) K Arr1
    by (simp add: set_d_def split_state_def split_input_def slice_Q_def slice_p_def
        slice_v_def slice_u_def slice_rho_def nX_def nU_def Let_def)
  then show ?thesis
    using assms(2,3) K Arr1 by (auto simp: Let_def)
qed

theorem set_below_kf_witness:
  "kf kin_dsystem = Inr 1 \<and> (0 :: int) \<le> 0 \<and> (0 :: int) < 1 \<and>
   set_d kin_integrator kin_dsystem [5, 0] [7] 0 None =
     Inr (kin_dsystem\<lparr>cur_k := 0,
            varint := kin_varint\<lparr>phase := Stepped, t1 := 0, q1 := [5], p1 := [], t2 := 1, q2 := [7], p2 := []\<rparr>\<rparr>)"
  using set_below_kf [of kin_dsystem 1 0 kin_integrator "[5, 0]" "[7]" None]
  by (auto simp: kf_def counts_kin kin_integrator_def getslice_def slice_Q_def slice_p_def
      slice_u_def slice_rho_def nU_def)

section \<open>The finite-difference check\<close>




























end
